theory Spec2Isabelle
  imports Complex_Main "HOL-Library.Word"
begin

section \<open>The scripting engine contract (script/engine.h)\<close>

text \<open>
  Everything an engine does that the outside can see is written to a trace, in the order
  in which the calls happen: what reaches \<open>EngineDelegate::onConsolePrint\<close>, each run of an
  \<open>afterEval\<close> listener, each call of \<open>initGlobals\<close> with the global objects it binds, and the
  calls into the interpreter that compile and run source text.

  A listener is an opaque callback; it is named by a number. The call sites
  (\<open>LuaEngine::eval\<close>, the lambda of \<open>DialogScriptObject::build\<close>) use the one-argument form
  \<open>execAfterEval(success)\<close>, which the event records; the declaration in \<open>engine.h\<close> has no
  parameter.
\<close>

type_synonym listener = nat

datatype event =
    ConsolePrint string
  | ListenerCalled listener bool
  | InitGlobals
  | MakeGlobal string
  | LoadString string
  | PCall
  | Compile string
  | Run

record Engine =
  m_afterEvalListeners :: "listener list"
  m_scriptObjects :: "string list"
  m_printLastResult :: bool
  trace :: "event list"

definition emit :: "event \<Rightarrow> 'a Engine_scheme \<Rightarrow> 'a Engine_scheme" where
  "emit ev e = e\<lparr>trace := trace e @ [ev]\<rparr>"

definition onConsolePrint :: "string \<Rightarrow> 'a Engine_scheme \<Rightarrow> 'a Engine_scheme" where
  "onConsolePrint text e = emit (ConsolePrint text) e"

text \<open>\<open>for (auto& listener : m_afterEvalListeners) listener();\<close>\<close>

fun call_listeners :: "listener list \<Rightarrow> bool \<Rightarrow> 'a Engine_scheme \<Rightarrow> 'a Engine_scheme" where
  "call_listeners [] success e = e"
| "call_listeners (l # ls) success e = call_listeners ls success (emit (ListenerCalled l success) e)"

definition execAfterEval :: "bool \<Rightarrow> 'a Engine_scheme \<Rightarrow> 'a Engine_scheme" where
  "execAfterEval success e = call_listeners (m_afterEvalListeners e) success e"

definition afterEval :: "listener \<Rightarrow> 'a Engine_scheme \<Rightarrow> 'a Engine_scheme" where
  "afterEval callback e = e\<lparr>m_afterEvalListeners := m_afterEvalListeners e @ [callback]\<rparr>"

text \<open>
  Modelled from the spec: \<open>ScriptObject::getAllWithFlag\<close> is declared in
  \<open>script/script_object.h\<close>, which is not among the sources. The registry lists every
  registered ScriptObject name with its flags; the call instantiates one object for each
  name carrying the flag, and an instantiated global object binds itself into the
  interpreter's top-level scope through \<open>InternalScriptObject::makeGlobal(name)\<close>.
\<close>

type_synonym registry = "(string \<times> string list) list"

definition getAllWithFlag :: "registry \<Rightarrow> string \<Rightarrow> string list" where
  "getAllWithFlag reg flag = map fst (filter (\<lambda>entry. flag \<in> set (snd entry)) reg)"

definition initGlobals :: "registry \<Rightarrow> 'a Engine_scheme \<Rightarrow> 'a Engine_scheme" where
  "initGlobals reg e =
     (let objs = getAllWithFlag reg ''global'';
          e1 = emit InitGlobals e;
          e2 = e1\<lparr>trace := trace e1 @ map MakeGlobal objs\<rparr>
      in e2\<lparr>m_scriptObjects := objs\<rparr>)"

text \<open>
  What a running script does to the engine through the native functions bound into it:
  it prints through the delegate, and it registers listeners (creating a dialog calls
  \<open>afterEval\<close> in \<open>DialogScriptObject::build\<close>).
\<close>

datatype native_call = NativePrint string | NativeAfterEval listener

fun do_native :: "native_call \<Rightarrow> 'a Engine_scheme \<Rightarrow> 'a Engine_scheme" where
  "do_native (NativePrint text) e = onConsolePrint text e"
| "do_native (NativeAfterEval l) e = afterEval l e"

fun do_natives :: "native_call list \<Rightarrow> 'a Engine_scheme \<Rightarrow> 'a Engine_scheme" where
  "do_natives [] e = e"
| "do_natives (c # cs) e = do_natives cs (do_native c e)"

subsection \<open>The Lua backend\<close>

text \<open>
  The Lua library is a parameter. \<open>luaL_loadstring\<close> compiles a chunk in the interpreter
  state and returns a status; \<open>lua_pcall\<close> runs the chunk on top of the stack and returns
  the native calls the chunk made, then either a status or, as \<open>Inl\<close>, the message of a
  \<open>std::exception\<close> that left a native function; \<open>lua_pop_all\<close> is
  \<open>lua_pop(L, lua_gettop(L))\<close>.
\<close>

datatype lua_status = LUA_OK | LUA_YIELD | LUA_ERRRUN | LUA_ERRSYNTAX | LUA_ERRMEM | LUA_ERRERR

record 'l lua_lib =
  luaL_loadstring :: "'l \<Rightarrow> string \<Rightarrow> lua_status \<times> 'l"
  lua_pcall :: "'l \<Rightarrow> native_call list \<times> (string + lua_status) \<times> 'l"
  lua_pop_all :: "'l \<Rightarrow> 'l"

record 'l LuaEngine = Engine +
  L :: 'l

text \<open>
  The constructor: \<open>L = luaL_newstate(); luaL_openlibs(L); initGlobals();\<close>. The fresh
  interpreter state with its libraries opened is the argument \<open>L0\<close>.
\<close>

definition LuaEngine_new :: "registry \<Rightarrow> 'l \<Rightarrow> 'l LuaEngine" where
  "LuaEngine_new reg L0 =
     initGlobals reg
       \<lparr>m_afterEvalListeners = [], m_scriptObjects = [], m_printLastResult = False,
        trace = [], L = L0\<rparr>"

definition LuaEngine_printLastResult :: "'l LuaEngine \<Rightarrow> 'l LuaEngine" where
  "LuaEngine_printLastResult e = e\<lparr>m_printLastResult := True\<rparr>"

text \<open>
  The body of the \<open>try\<close> block of \<open>LuaEngine::eval\<close>. It yields the engine and, as \<open>Inr\<close>,
  the value of \<open>success\<close> where the block ends, or, as \<open>Inl\<close>, the exception caught.
  The assignment \<open>success = false\<close> that follows the outer \<open>if\<close> has no \<open>else\<close> in the
  source, so it runs on every path that reaches the end of the block.
\<close>

definition LuaEngine_try :: "'l lua_lib \<Rightarrow> string \<Rightarrow> 'l LuaEngine \<Rightarrow> (string + bool) \<times> 'l LuaEngine" where
  "LuaEngine_try lib code e =
     (let success = True;
          (ld, L1) = luaL_loadstring lib (L e) code;
          e1 = emit (LoadString code) (e\<lparr>L := L1\<rparr>)
      in if ld = LUA_OK then
           (case lua_pcall lib (L e1) of
              (calls, r, L2) \<Rightarrow>
                let e2 = do_natives calls (emit PCall (e1\<lparr>L := L2\<rparr>))
                in (case r of
                      Inl what \<Rightarrow> (Inl what, e2)
                    | Inr st \<Rightarrow>
                        if st = LUA_OK
                        then (let e3 = e2\<lparr>L := lua_pop_all lib (L e2)\<rparr>;
                                  success = False
                              in (Inr success, e3))
                        else (let success = False;
                                  success = False
                              in (Inr success, e2))))
         else (let success = False in (Inr success, e1)))"

definition LuaEngine_eval :: "'l lua_lib \<Rightarrow> string \<Rightarrow> 'l LuaEngine \<Rightarrow> bool \<times> 'l LuaEngine" where
  "LuaEngine_eval lib code e =
     (case LuaEngine_try lib code e of
        (Inr success, e1) \<Rightarrow> (success, execAfterEval success e1)
      | (Inl what, e1) \<Rightarrow>
          (let err = ''Error: '' @ what;
               e2 = onConsolePrint err e1;
               success = False
           in (success, execAfterEval success e2)))"

definition LuaEngine_raiseEvent :: "'l lua_lib \<Rightarrow> string \<Rightarrow> 'l LuaEngine \<Rightarrow> bool \<times> 'l LuaEngine" where
  "LuaEngine_raiseEvent lib event e =
     LuaEngine_eval lib (''if onEvent~=nil then onEvent('' @ [CHR 0x22] @ event @ [CHR 0x22] @ '') end'') e"

subsection \<open>The V8 backend\<close>

text \<open>
  The V8 library is a parameter. \<open>Script_Compile\<close> yields a script or the empty handle
  (\<open>None\<close>); \<open>Script_Run\<close> yields the native calls the script made and how the run ended:
  with a value (its text as \<open>v8::String::Utf8Value\<close> renders it), with the empty handle
  (and the text of the exception when the \<open>TryCatch\<close> caught one), or with a
  \<open>std::exception\<close> leaving a native function. \<open>ToLocalChecked()\<close> on an empty handle
  is V8's fatal error: the process is aborted, no C++ exception is thrown.
\<close>

datatype v8_run = RunValue string | RunEmpty "string option" | RunThrows string

record ('i, 's) v8_lib =
  Script_Compile :: "'i \<Rightarrow> string \<Rightarrow> 's option \<times> 'i"
  Script_Run :: "'i \<Rightarrow> 's \<Rightarrow> native_call list \<times> v8_run \<times> 'i"

datatype fatal = ToLocalChecked_Empty

record 'i V8Engine = Engine +
  m_isolate :: 'i

definition V8Engine_printLastResult :: "'i V8Engine \<Rightarrow> 'i V8Engine" where
  "V8Engine_printLastResult e = e\<lparr>m_printLastResult := True\<rparr>"

definition V8Engine_eval ::
  "('i, 's) v8_lib \<Rightarrow> registry \<Rightarrow> string \<Rightarrow> 'i V8Engine \<Rightarrow> fatal + bool \<times> 'i V8Engine" where
  "V8Engine_eval lib reg code e =
     (let errFlag = True;
          e1 = initGlobals reg e;
          (compiled, i1) = Script_Compile lib (m_isolate e1) code;
          e2 = emit (Compile code) (e1\<lparr>m_isolate := i1\<rparr>)
      in case compiled of
           None \<Rightarrow> Inl ToLocalChecked_Empty
         | Some script \<Rightarrow>
             (case Script_Run lib (m_isolate e2) script of
                (calls, result, i2) \<Rightarrow>
                  let e3 = do_natives calls (emit Run (e2\<lparr>m_isolate := i2\<rparr>))
                  in (case result of
                        RunThrows what \<Rightarrow>
                          (let err = ''Error: '' @ what;
                               e4 = onConsolePrint err e3;
                               errFlag = True
                           in Inr (errFlag, e4))
                      | RunEmpty caught \<Rightarrow>
                          (let e4 = (case caught of Some exception \<Rightarrow> onConsolePrint exception e3
                                                  | None \<Rightarrow> e3);
                               errFlag = False
                           in Inr (errFlag, e4))
                      | RunValue utf8 \<Rightarrow>
                          (let e4 = (if m_printLastResult e3 then onConsolePrint utf8 e3 else e3);
                               errFlag = False
                           in Inr (errFlag, e4)))))"

text \<open>Projections of a trace.\<close>

fun is_listener_call :: "event \<Rightarrow> bool" where
  "is_listener_call (ListenerCalled l b) = True"
| "is_listener_call ev = False"

fun is_console :: "event \<Rightarrow> bool" where
  "is_console (ConsolePrint s) = True"
| "is_console ev = False"

definition fired :: "event list \<Rightarrow> event list" where
  "fired t = filter is_listener_call t"

definition console :: "event list \<Rightarrow> event list" where
  "console t = filter is_console t"

fun registered_by :: "native_call list \<Rightarrow> listener list" where
  "registered_by [] = []"
| "registered_by (NativeAfterEval l # cs) = l # registered_by cs"
| "registered_by (NativePrint s # cs) = registered_by cs"

fun printed_by :: "native_call list \<Rightarrow> event list" where
  "printed_by [] = []"
| "printed_by (NativePrint s # cs) = ConsolePrint s # printed_by cs"
| "printed_by (NativeAfterEval l # cs) = printed_by cs"


text \<open>
  Concrete interpreters and engines for the evaluations below: a Lua library whose
  \<open>luaL_loadstring\<close> and \<open>lua_pcall\<close> end as given and whose chunk calls no native
  function, a V8 library whose script compiles and whose run ends as given.
\<close>

definition example_lua :: "lua_status \<Rightarrow> (string + lua_status) \<Rightarrow> unit lua_lib" where
  "example_lua ld r =
     \<lparr>luaL_loadstring = (\<lambda>l code. (ld, l)),
      lua_pcall = (\<lambda>l. ([], r, l)),
      lua_pop_all = (\<lambda>l. l)\<rparr>"

definition example_v8 :: "v8_run \<Rightarrow> (unit, string) v8_lib" where
  "example_v8 r =
     \<lparr>Script_Compile = (\<lambda>i code. (Some code, i)),
      Script_Run = (\<lambda>i script. ([], r, i))\<rparr>"

definition example_engine :: "listener list \<Rightarrow> bool \<Rightarrow> 'l \<Rightarrow> 'l LuaEngine" where
  "example_engine ls p l =
     \<lparr>m_afterEvalListeners = ls, m_scriptObjects = [], m_printLastResult = p, trace = [], L = l\<rparr>"

definition example_v8_engine :: "listener list \<Rightarrow> bool \<Rightarrow> 'i \<Rightarrow> 'i V8Engine" where
  "example_v8_engine ls p i =
     \<lparr>m_afterEvalListeners = ls, m_scriptObjects = [], m_printLastResult = p, trace = [],
      m_isolate = i\<rparr>"


section \<open>Values crossing the native/script boundary\<close>

text \<open>
  Modelled from the spec: the class \<open>Value\<close> and its conversions are declared in
  \<open>script/value.h\<close>, which is not among the sources. A Value holds exactly one of:
  nothing, a signed 64-bit integer, a double, an owned text, a non-owning pointer to a
  ScriptObject. A double is modelled by the real number it denotes: the code stores and
  copies doubles and converts 32-bit integers to them, which is exact; it does no
  arithmetic on them. A pointer to a ScriptObject is null (\<open>None\<close>) or reaches, through
  \<open>getInternalScriptObject()\<close>, the adapter with the names of the declared functions and
  properties in the order in which the adapter's loops visit them. The kind \<open>INT\<close> is
  written \<open>INT64\<close>, and the adapter's members \<open>functions\<close> and \<open>properties\<close> are written
  \<open>m_functions\<close> and \<open>m_properties\<close>: the shorter names are taken in Isabelle.
\<close>

type_synonym double = real

record InternalScriptObject =
  m_functions :: "string list"
  m_properties :: "string list"

datatype Value =
    UNDEFINED
  | INT64 "64 word"
  | DOUBLE double
  | STRING string
  | OBJECT "InternalScriptObject option"

text \<open>
  Modelled from the spec: the conversions of a Value to \<open>int\<close> and to \<open>const char*\<close>, and
  the constructors from \<open>int\<close>, \<open>bool\<close> and \<open>const char*\<close>. An INT64 narrows to the 32-bit
  \<open>int\<close> by dropping the upper bits; a C string ends at the first NUL character; an
  \<open>int\<close> or a \<open>bool\<close> becomes an INT64.
\<close>

definition Value_to_int :: "64 word \<Rightarrow> 32 word" where
  "Value_to_int n = ucast n"

definition c_str :: "string \<Rightarrow> string" where
  "c_str s = takeWhile (\<lambda>c. c \<noteq> CHR 0x00) s"

definition Value_of_int :: "32 word \<Rightarrow> Value" where
  "Value_of_int i = INT64 (scast i)"

definition Value_of_bool :: "bool \<Rightarrow> Value" where
  "Value_of_bool b = INT64 (if b then 1 else 0)"

definition Value_of_c_str :: "string \<Rightarrow> Value" where
  "Value_of_c_str s = STRING (c_str s)"

subsection \<open>The Lua adapter (LuaScriptObject)\<close>

datatype lua_closure = CallFunc string | GetSet string

datatype lua_value =
    LNil
  | LBoolean bool
  | LLightUserdata
  | LInteger "64 word"
  | LNumber double
  | LString string
  | LTable "(string \<times> lua_closure) list"
  | LFunction lua_closure
  | LUserdata
  | LThread

datatype lua_type_code =
    LUA_TNONE | LUA_TNIL | LUA_TBOOLEAN | LUA_TLIGHTUSERDATA | LUA_TNUMBER | LUA_TSTRING
  | LUA_TTABLE | LUA_TFUNCTION | LUA_TUSERDATA | LUA_TTHREAD

text \<open>
  The Lua stack is a list, bottom first. A positive index counts from the bottom
  (1 is the first element), a negative one from the top (-1 is the top); any other
  index holds no value.
\<close>

type_synonym lua_stack = "lua_value list"

definition stack_at :: "lua_stack \<Rightarrow> int \<Rightarrow> lua_value option" where
  "stack_at st i =
     (if 1 \<le> i \<and> i \<le> int (length st) then Some (st ! nat (i - 1))
      else if i < 0 \<and> - i \<le> int (length st) then Some (st ! nat (int (length st) + i))
      else None)"

fun type_of_lua :: "lua_value \<Rightarrow> lua_type_code" where
  "type_of_lua LNil = LUA_TNIL"
| "type_of_lua (LBoolean b) = LUA_TBOOLEAN"
| "type_of_lua LLightUserdata = LUA_TLIGHTUSERDATA"
| "type_of_lua (LInteger n) = LUA_TNUMBER"
| "type_of_lua (LNumber d) = LUA_TNUMBER"
| "type_of_lua (LString s) = LUA_TSTRING"
| "type_of_lua (LTable t) = LUA_TTABLE"
| "type_of_lua (LFunction f) = LUA_TFUNCTION"
| "type_of_lua LUserdata = LUA_TUSERDATA"
| "type_of_lua LThread = LUA_TTHREAD"

definition lua_type :: "lua_stack \<Rightarrow> int \<Rightarrow> lua_type_code" where
  "lua_type st i = (case stack_at st i of None \<Rightarrow> LUA_TNONE | Some v \<Rightarrow> type_of_lua v)"

text \<open>
  \<open>lua_tonumber\<close>, \<open>lua_toboolean\<close> and \<open>lua_tostring\<close> on the kinds \<open>getValue\<close> asks them
  for; on any other kind they yield 0, and the empty string.
\<close>

definition lua_tonumber :: "lua_stack \<Rightarrow> int \<Rightarrow> double" where
  "lua_tonumber st i =
     (case stack_at st i of
        Some (LNumber d) \<Rightarrow> d
      | Some (LInteger n) \<Rightarrow> real_of_int (sint n)
      | _ \<Rightarrow> 0)"

definition lua_toboolean :: "lua_stack \<Rightarrow> int \<Rightarrow> 32 word" where
  "lua_toboolean st i =
     (case stack_at st i of
        None \<Rightarrow> 0
      | Some LNil \<Rightarrow> 0
      | Some (LBoolean b) \<Rightarrow> (if b then 1 else 0)
      | Some v \<Rightarrow> 1)"

definition lua_tostring :: "lua_stack \<Rightarrow> int \<Rightarrow> string" where
  "lua_tostring st i = (case stack_at st i of Some (LString s) \<Rightarrow> s | _ \<Rightarrow> [])"

text \<open>
  \<open>getValue\<close> takes the text written to standard output so far and returns it with the
  Value: the Lua adapter writes nothing.
\<close>

definition Lua_getValue :: "string list \<Rightarrow> lua_stack \<Rightarrow> int \<Rightarrow> Value \<times> string list" where
  "Lua_getValue out st index =
     (let type = lua_type st index in
      if type = LUA_TNIL then (UNDEFINED, out)
      else if type = LUA_TNUMBER then (DOUBLE (lua_tonumber st index), out)
      else if type = LUA_TBOOLEAN then (Value_of_int (lua_toboolean st index), out)
      else if type = LUA_TSTRING then (Value_of_c_str (lua_tostring st index), out)
      else (UNDEFINED, out))"

text \<open>
  \<open>lua_setfield(L, -2, name)\<close> stores the closure on top of the stack in the table below
  it, replacing what the table held under that name.
\<close>

definition lua_setfield :: "string \<Rightarrow> lua_closure \<Rightarrow> (string \<times> lua_closure) list \<Rightarrow> (string \<times> lua_closure) list" where
  "lua_setfield name f t = filter (\<lambda>entry. fst entry \<noteq> name) t @ [(name, f)]"

fun Lua_pushFunctions :: "string list \<Rightarrow> (string \<times> lua_closure) list \<Rightarrow> (string \<times> lua_closure) list" where
  "Lua_pushFunctions [] t = t"
| "Lua_pushFunctions (name # names) t = Lua_pushFunctions names (lua_setfield name (CallFunc name) t)"

fun Lua_pushProperties :: "string list \<Rightarrow> (string \<times> lua_closure) list \<Rightarrow> (string \<times> lua_closure) list" where
  "Lua_pushProperties [] t = t"
| "Lua_pushProperties (name # names) t = Lua_pushProperties names (lua_setfield name (GetSet name) t)"

definition Lua_makeLocal :: "InternalScriptObject \<Rightarrow> lua_stack \<Rightarrow> int \<times> lua_stack" where
  "Lua_makeLocal obj st =
     (let tableIndex = int (length st) + 1;
          t = Lua_pushProperties (m_properties obj) (Lua_pushFunctions (m_functions obj) [])
      in (tableIndex, st @ [LTable t]))"

definition Lua_returnValue :: "lua_stack \<Rightarrow> Value \<Rightarrow> int \<times> lua_stack" where
  "Lua_returnValue st value =
     (case value of
        UNDEFINED \<Rightarrow> (0, st)
      | INT64 n \<Rightarrow> (1, st @ [LInteger (scast (Value_to_int n))])
      | DOUBLE d \<Rightarrow> (1, st @ [LNumber d])
      | STRING s \<Rightarrow> (1, st @ [LString (c_str s)])
      | OBJECT p \<Rightarrow>
          (case p of
             Some object \<Rightarrow> (1, snd (Lua_makeLocal object st))
           | None \<Rightarrow> (0, st)))"

text \<open>
  The round trip through Lua: \<open>returnValue\<close> pushes the Value on an empty stack, as
  \<open>callFunc\<close> does for a result, and \<open>getValue\<close> reads index 1 back, as \<open>callFunc\<close> does
  for an argument.
\<close>

definition Lua_roundtrip :: "string list \<Rightarrow> Value \<Rightarrow> Value \<times> string list" where
  "Lua_roundtrip out v = Lua_getValue out (snd (Lua_returnValue [] v)) 1"

subsection \<open>The V8 adapter (V8ScriptObject)\<close>

datatype v8_member = Method string | Accessor string

text \<open>
  A JavaScript string is a sequence of 16-bit code units, each written here as a natural
  number. The conversions between it and
  UTF-8 text are V8's own and are parameters: \<open>String_NewFromUtf8\<close> is
  \<open>v8::String::NewFromUtf8\<close> on a C string, which decodes the bytes and puts U+FFFD for
  every malformed sequence; \<open>String_Utf8Value\<close> is what \<open>v8::String::Utf8Value\<close> holds,
  the string encoded as UTF-8.
\<close>

type_synonym js_string = "nat list"

record v8_strings =
  String_NewFromUtf8 :: "string \<Rightarrow> js_string"
  String_Utf8Value :: "js_string \<Rightarrow> string"

datatype v8_value =
    JSUndefined
  | JSNull
  | JSString js_string
  | JSNumber double
  | JSBoolean bool
  | JSObject "(string \<times> v8_member) list"
  | JSFunction
  | JSSymbol
  | JSBigInt

fun IsNullOrUndefined :: "v8_value \<Rightarrow> bool" where
  "IsNullOrUndefined JSUndefined = True"
| "IsNullOrUndefined JSNull = True"
| "IsNullOrUndefined v = False"

fun IsString :: "v8_value \<Rightarrow> bool" where
  "IsString (JSString s) = True"
| "IsString v = False"

fun IsNumber :: "v8_value \<Rightarrow> bool" where
  "IsNumber (JSNumber d) = True"
| "IsNumber v = False"

fun IsBoolean :: "v8_value \<Rightarrow> bool" where
  "IsBoolean (JSBoolean b) = True"
| "IsBoolean v = False"

fun IsUint32 :: "v8_value \<Rightarrow> bool" where
  "IsUint32 (JSNumber d) = (d = real_of_int \<lfloor>d\<rfloor> \<and> 0 \<le> d \<and> d < 2 ^ 32)"
| "IsUint32 v = False"

fun IsInt32 :: "v8_value \<Rightarrow> bool" where
  "IsInt32 (JSNumber d) = (d = real_of_int \<lfloor>d\<rfloor> \<and> - (2 ^ 31) \<le> d \<and> d < 2 ^ 31)"
| "IsInt32 v = False"

fun NumberValue :: "v8_value \<Rightarrow> double" where
  "NumberValue (JSNumber d) = d"
| "NumberValue v = 0"

fun BooleanValue :: "v8_value \<Rightarrow> bool" where
  "BooleanValue (JSBoolean b) = b"
| "BooleanValue v = False"

fun Utf8Value :: "v8_strings \<Rightarrow> v8_value \<Rightarrow> string" where
  "Utf8Value codec (JSString u) = String_Utf8Value codec u"
| "Utf8Value codec v = []"

fun TypeOf :: "v8_value \<Rightarrow> string" where
  "TypeOf JSUndefined = ''undefined''"
| "TypeOf JSNull = ''object''"
| "TypeOf (JSString s) = ''string''"
| "TypeOf (JSNumber d) = ''number''"
| "TypeOf (JSBoolean b) = ''boolean''"
| "TypeOf (JSObject ms) = ''object''"
| "TypeOf JSFunction = ''function''"
| "TypeOf JSSymbol = ''symbol''"
| "TypeOf JSBigInt = ''bigint''"

text \<open>
  \<open>getValue\<close> reads through its handle at once (\<open>local->IsNullOrUndefined()\<close>), so it is
  defined on the value a non-empty handle refers to. The text \<open>printf\<close> writes is
  appended to the standard output; the \<open>typeof\<close> texts are ASCII and are written as they
  are.
\<close>

definition V8_getValue :: "v8_strings \<Rightarrow> string list \<Rightarrow> v8_value \<Rightarrow> Value \<times> string list" where
  "V8_getValue codec out local =
     (if IsNullOrUndefined local then (UNDEFINED, out)
      else if IsString local then (Value_of_c_str (Utf8Value codec local), out)
      else if IsNumber local then (DOUBLE (NumberValue local), out)
      else if IsUint32 local then (INT64 (word_of_int \<lfloor>NumberValue local\<rfloor>), out)
      else if IsInt32 local then (INT64 (word_of_int \<lfloor>NumberValue local\<rfloor>), out)
      else if IsBoolean local then (Value_of_bool (BooleanValue local), out)
      else (UNDEFINED, out @ [''Unknown type: ['' @ TypeOf local @ '']'' @ [CHR 0x0A]]))"

definition v8_set :: "string \<Rightarrow> v8_member \<Rightarrow> (string \<times> v8_member) list \<Rightarrow> (string \<times> v8_member) list" where
  "v8_set name m obj = filter (\<lambda>entry. fst entry \<noteq> name) obj @ [(name, m)]"

fun V8_pushFunctions :: "string list \<Rightarrow> (string \<times> v8_member) list \<Rightarrow> (string \<times> v8_member) list" where
  "V8_pushFunctions [] obj = obj"
| "V8_pushFunctions (name # names) obj = V8_pushFunctions names (v8_set name (Method name) obj)"

fun V8_pushProperties :: "string list \<Rightarrow> (string \<times> v8_member) list \<Rightarrow> (string \<times> v8_member) list" where
  "V8_pushProperties [] obj = obj"
| "V8_pushProperties (name # names) obj = V8_pushProperties names (v8_set name (Accessor name) obj)"

definition V8_makeLocal :: "InternalScriptObject \<Rightarrow> v8_value" where
  "V8_makeLocal obj =
     JSObject (V8_pushProperties (m_properties obj) (V8_pushFunctions (m_functions obj) []))"

text \<open>The result is a handle: \<open>None\<close> is the empty \<open>v8::Local\<close>.\<close>

definition V8_returnValue :: "v8_strings \<Rightarrow> Value \<Rightarrow> v8_value option" where
  "V8_returnValue codec value =
     (case value of
        UNDEFINED \<Rightarrow> None
      | INT64 n \<Rightarrow> Some (JSNumber (real_of_int (sint (Value_to_int n))))
      | DOUBLE d \<Rightarrow> Some (JSNumber d)
      | STRING s \<Rightarrow> Some (JSString (String_NewFromUtf8 codec (c_str s)))
      | OBJECT p \<Rightarrow>
          (case p of
             Some object \<Rightarrow> Some (V8_makeLocal object)
           | None \<Rightarrow> None))"

definition V8_roundtrip ::
  "v8_strings \<Rightarrow> string list \<Rightarrow> Value \<Rightarrow> (Value \<times> string list) option" where
  "V8_roundtrip codec out v =
     (case V8_returnValue codec v of
        None \<Rightarrow> None
      | Some local \<Rightarrow> Some (V8_getValue codec out local))"

text \<open>
  A conversion for the evaluations below. It decodes the well-formed one, two and three
  byte sequences of UTF-8 to a code unit and puts U+FFFD for any other byte (the bytes of
  a four byte sequence included, which V8 decodes to a surrogate pair); it encodes a code
  unit in one, two or three bytes.
\<close>

definition example_second_ok :: "nat \<Rightarrow> nat \<Rightarrow> bool" where
  "example_second_ok a b =
     (if a = 224 then 160 \<le> b \<and> b < 192
      else if a = 237 then 128 \<le> b \<and> b < 160
      else 128 \<le> b \<and> b < 192)"

definition example_two :: "nat \<Rightarrow> nat \<Rightarrow> bool" where
  "example_two a b = (194 \<le> a \<and> a < 224 \<and> 128 \<le> b \<and> b < 192)"

definition example_three :: "nat \<Rightarrow> nat \<Rightarrow> nat \<Rightarrow> bool" where
  "example_three a b c =
     (224 \<le> a \<and> a < 240 \<and> example_second_ok a b \<and> 128 \<le> c \<and> c < 192)"

fun example_decode :: "nat list \<Rightarrow> nat list" where
  "example_decode (a # b # c # ds) =
     (if a < 128 then a # example_decode (b # c # ds)
      else if example_two a b then ((a - 192) * 64 + (b - 128)) # example_decode (c # ds)
      else if example_three a b c
      then ((a - 224) * 4096 + (b - 128) * 64 + (c - 128)) # example_decode ds
      else 65533 # example_decode (b # c # ds))"
| "example_decode [a, b] =
     (if a < 128 then a # example_decode [b]
      else if example_two a b then [(a - 192) * 64 + (b - 128)]
      else 65533 # example_decode [b])"
| "example_decode [a] = (if a < 128 then [a] else [65533])"
| "example_decode [] = []"

definition example_encode_unit :: "nat \<Rightarrow> string" where
  "example_encode_unit u =
     (if u < 128 then [char_of u]
      else if u < 2048 then [char_of (192 + u div 64), char_of (128 + u mod 64)]
      else [char_of (224 + u div 4096), char_of (128 + (u div 64) mod 64),
            char_of (128 + u mod 64)])"

definition example_codec :: v8_strings where
  "example_codec =
     \<lparr>String_NewFromUtf8 = (\<lambda>s. example_decode (map of_char s)),
      String_Utf8Value = (\<lambda>u. concat (map example_encode_unit u))\<rparr>"


section \<open>Sub-objects of a dialog (DialogScriptObject)\<close>

text \<open>
  Modelled from the spec: \<open>base::string_to_lower\<close> is declared in \<open>base/string.h\<close>, which
  is not among the sources; it lower-cases the whole name. \<open>tolower\<close> and \<open>toupper\<close> are
  those of the C locale: they change the 26 letters of ASCII and nothing else.
\<close>

definition tolower :: "char \<Rightarrow> char" where
  "tolower c =
     (let n = (of_char c :: nat) in if 65 \<le> n \<and> n \<le> 90 then char_of (n + 32) else c)"

definition toupper :: "char \<Rightarrow> char" where
  "toupper c =
     (let n = (of_char c :: nat) in if 97 \<le> n \<and> n \<le> 122 then char_of (n - 32) else c)"

definition string_to_lower :: "string \<Rightarrow> string" where
  "string_to_lower s = map tolower s"

text \<open>\<open>std::to_string\<close> of an unsigned number: its decimal digits.\<close>

function to_string :: "nat \<Rightarrow> string" where
  "to_string n =
     (if n < 10 then [char_of (48 + n)] else to_string (n div 10) @ [char_of (48 + n mod 10)])"
  by pat_completeness auto
termination
  by (relation "measure (\<lambda>n. n)") auto

declare to_string.simps [simp del]

text \<open>
  A widget script object as the dialog sees it: the key of the factory that made it, how
  it wants to be laid out, the \<open>ui::Widget\<close> it wraps (\<open>None\<close> for a null pointer), and
  the value of its property "id". The declarations are in \<open>widget_script.h\<close>, which is
  not among the sources.
\<close>

datatype DisplayType = Inherit | Block | Inline

record WidgetScriptObject =
  factoryKey :: string
  getDisplayType :: DisplayType
  getWrapped :: "nat option"
  id_property :: string

record Dialog =
  m_isInline :: bool
  m_children :: "nat list list"

definition Dialog_add :: "WidgetScriptObject \<Rightarrow> Dialog \<Rightarrow> Dialog" where
  "Dialog_add child d =
     (let nextIsInline = m_isInline d;
          (nextIsInline, d1) =
            (case getDisplayType child of
               Inherit \<Rightarrow> (nextIsInline, d)
             | Block \<Rightarrow> (False, d\<lparr>m_isInline := False\<rparr>)
             | Inline \<Rightarrow> (True, d))
      in case getWrapped child of
           None \<Rightarrow> d1
         | Some ui \<Rightarrow>
             (let d2 = (if m_isInline d1 \<and> m_children d1 \<noteq> []
                        then d1\<lparr>m_children :=
                                butlast (m_children d1) @ [last (m_children d1) @ [ui]]\<rparr>
                        else d1\<lparr>m_children := m_children d1 @ [[ui]]\<rparr>)
              in d2\<lparr>m_isInline := nextIsInline\<rparr>))"

text \<open>
  The script object of a dialog: its widgets by id (\<open>std::unordered_map\<close>), the counter
  for generated ids (\<open>uint32_t\<close>), and the dialog it wraps.
\<close>

record DialogScriptObject =
  m_widgets :: "string \<rightharpoonup> WidgetScriptObject"
  m_nextWidgetId :: "32 word"
  dialog :: Dialog

definition DialogScriptObject_get :: "DialogScriptObject \<Rightarrow> string \<Rightarrow> WidgetScriptObject option" where
  "DialogScriptObject_get s ident = m_widgets s ident"

text \<open>
  The key under which \<open>add\<close> asks the registry for a factory, for a type name that is
  not empty: the three statements that build \<open>cleanType\<close>.
\<close>

definition cleanType_of :: "string \<Rightarrow> string" where
  "cleanType_of type =
     (let cleanType = string_to_lower type;
          cleanType = (case cleanType of [] \<Rightarrow> [] | c # cs \<Rightarrow> toupper c # cs);
          cleanType = cleanType @ ''WidgetScriptObject''
      in cleanType)"

text \<open>
  \<open>add\<close>. The registry is the parameter \<open>inject\<close>: the widget a factory registered under
  the key makes, or \<open>None\<close> when no factory resolves. \<open>emplace\<close> keeps an entry that is
  already there. The result is the pointer \<open>rawPtr\<close>, whose object has its id set by
  the time \<open>add\<close> returns.
\<close>

definition DialogScriptObject_add ::
  "(string \<Rightarrow> WidgetScriptObject option) \<Rightarrow> string \<Rightarrow> string \<Rightarrow> DialogScriptObject
     \<Rightarrow> WidgetScriptObject option \<times> DialogScriptObject" where
  "DialogScriptObject_add inject type ident s =
     (if type = [] \<or> DialogScriptObject_get s ident \<noteq> None then (None, s)
      else
        let unprefixedType = string_to_lower type;
            cleanType = cleanType_of type
        in case inject cleanType of
             None \<Rightarrow> (None, s)
           | Some widget \<Rightarrow>
               (let s1 = s\<lparr>dialog := Dialog_add widget (dialog s)\<rparr>;
                    (cleanId, s2) =
                      (if ident \<noteq> [] then (ident, s1)
                       else (unprefixedType @ to_string (unat (m_nextWidgetId s1)),
                             s1\<lparr>m_nextWidgetId := m_nextWidgetId s1 + 1\<rparr>));
                    widget' = widget\<lparr>id_property := cleanId\<rparr>;
                    s3 = (if cleanId \<in> dom (m_widgets s2) then s2
                          else s2\<lparr>m_widgets := (m_widgets s2)(cleanId \<mapsto> widget')\<rparr>)
                in (Some widget', s3)))"


text \<open>Concrete inputs for the evaluations below.\<close>

definition example_label :: WidgetScriptObject where
  "example_label =
     \<lparr>factoryKey = ''LabelWidgetScriptObject'', getDisplayType = Inherit, getWrapped = Some 1,
      id_property = []\<rparr>"

definition example_inject :: "string \<Rightarrow> WidgetScriptObject option" where
  "example_inject key = (if key = ''LabelWidgetScriptObject'' then Some example_label else None)"

definition example_dialog :: DialogScriptObject where
  "example_dialog =
     \<lparr>m_widgets = Map.empty, m_nextWidgetId = 0,
      dialog = \<lparr>m_isInline = False, m_children = []\<rparr>\<rparr>"

section \<open>Facts about the engine contract\<close>

lemma trace_emit [simp]: "trace (emit ev e) = trace e @ [ev]"
  by (simp add: emit_def)

lemma listeners_emit [simp]: "m_afterEvalListeners (emit ev e) = m_afterEvalListeners e"
  by (simp add: emit_def)

lemma scriptObjects_emit [simp]: "m_scriptObjects (emit ev e) = m_scriptObjects e"
  by (simp add: emit_def)

lemma printLastResult_emit [simp]: "m_printLastResult (emit ev e) = m_printLastResult e"
  by (simp add: emit_def)

lemma L_emit [simp]: "L (emit ev e) = L e"
  by (simp add: emit_def)

lemma trace_call_listeners:
  "trace (call_listeners ls b e) = trace e @ map (\<lambda>l. ListenerCalled l b) ls"
  by (induction ls arbitrary: e) simp_all

lemma listeners_call_listeners:
  "m_afterEvalListeners (call_listeners ls b e) = m_afterEvalListeners e"
  by (induction ls arbitrary: e) simp_all

lemma scriptObjects_call_listeners:
  "m_scriptObjects (call_listeners ls b e) = m_scriptObjects e"
  by (induction ls arbitrary: e) simp_all

lemma scriptObjects_execAfterEval [simp]:
  "m_scriptObjects (execAfterEval b e) = m_scriptObjects e"
  by (simp add: execAfterEval_def scriptObjects_call_listeners)

text \<open>
  One pass of \<open>execAfterEval\<close> runs every stored listener once, in the order of
  registration, and removes none; \<open>afterEval\<close> appends.
\<close>

lemma trace_execAfterEval:
  "trace (execAfterEval b e) = trace e @ map (\<lambda>l. ListenerCalled l b) (m_afterEvalListeners e)"
  by (simp add: execAfterEval_def trace_call_listeners)

lemma listeners_execAfterEval:
  "m_afterEvalListeners (execAfterEval b e) = m_afterEvalListeners e"
  by (simp add: execAfterEval_def listeners_call_listeners)

lemma listeners_afterEval:
  "m_afterEvalListeners (afterEval l e) = m_afterEvalListeners e @ [l]"
  by (simp add: afterEval_def)

lemma trace_afterEval [simp]: "trace (afterEval l e) = trace e"
  by (simp add: afterEval_def)

lemma fired_Nil [simp]: "fired [] = []"
  by (simp add: fired_def)

lemma fired_Cons [simp]:
  "fired (ev # t) = (if is_listener_call ev then ev # fired t else fired t)"
  by (simp add: fired_def)

lemma console_Nil [simp]: "console [] = []"
  by (simp add: console_def)

lemma console_Cons [simp]:
  "console (ev # t) = (if is_console ev then ev # console t else console t)"
  by (simp add: console_def)

lemma fired_append [simp]: "fired (s @ t) = fired s @ fired t"
  by (simp add: fired_def)

lemma console_append [simp]: "console (s @ t) = console s @ console t"
  by (simp add: console_def)

lemma fired_listener_calls [simp]:
  "fired (map (\<lambda>l. ListenerCalled l b) ls) = map (\<lambda>l. ListenerCalled l b) ls"
  by (induction ls) simp_all

lemma console_listener_calls [simp]: "console (map (\<lambda>l. ListenerCalled l b) ls) = []"
  by (induction ls) simp_all

lemma fired_MakeGlobal [simp]: "fired (map MakeGlobal xs) = []"
  by (induction xs) simp_all

lemma console_MakeGlobal [simp]: "console (map MakeGlobal xs) = []"
  by (induction xs) simp_all

lemma trace_do_natives: "trace (do_natives cs e) = trace e @ printed_by cs"
proof (induction cs arbitrary: e)
  case Nil
  show ?case by simp
next
  case (Cons c cs)
  show ?case by (cases c) (simp_all add: Cons.IH onConsolePrint_def)
qed

lemma listeners_do_natives:
  "m_afterEvalListeners (do_natives cs e) = m_afterEvalListeners e @ registered_by cs"
proof (induction cs arbitrary: e)
  case Nil
  show ?case by simp
next
  case (Cons c cs)
  show ?case by (cases c) (simp_all add: Cons.IH onConsolePrint_def listeners_afterEval)
qed

lemma scriptObjects_do_natives [simp]:
  "m_scriptObjects (do_natives cs e) = m_scriptObjects e"
proof (induction cs arbitrary: e)
  case Nil
  show ?case by simp
next
  case (Cons c cs)
  show ?case by (cases c) (simp_all add: Cons.IH onConsolePrint_def afterEval_def)
qed

lemma printLastResult_do_natives [simp]:
  "m_printLastResult (do_natives cs e) = m_printLastResult e"
proof (induction cs arbitrary: e)
  case Nil
  show ?case by simp
next
  case (Cons c cs)
  show ?case by (cases c) (simp_all add: Cons.IH onConsolePrint_def afterEval_def)
qed

lemma fired_printed_by [simp]: "fired (printed_by cs) = []"
  by (induction cs rule: printed_by.induct) simp_all

lemma console_printed_by [simp]: "console (printed_by cs) = printed_by cs"
  by (induction cs rule: printed_by.induct) simp_all

lemma InitGlobals_not_printed: "InitGlobals \<notin> set (printed_by cs)"
  by (induction cs rule: printed_by.induct) simp_all

lemma trace_initGlobals:
  "trace (initGlobals reg e) =
     trace e @ InitGlobals # map MakeGlobal (getAllWithFlag reg ''global'')"
  by (simp add: initGlobals_def Let_def)

lemma listeners_initGlobals [simp]:
  "m_afterEvalListeners (initGlobals reg e) = m_afterEvalListeners e"
  by (simp add: initGlobals_def Let_def)

lemma scriptObjects_initGlobals:
  "m_scriptObjects (initGlobals reg e) = getAllWithFlag reg ''global''"
  by (simp add: initGlobals_def Let_def)

subsection \<open>LuaEngine::eval\<close>

text \<open>
  Where the \<open>try\<close> block of \<open>LuaEngine::eval\<close> ends without an exception, \<open>success\<close> is
  false: the assignment after the outer \<open>if\<close> is not guarded by an \<open>else\<close>.
\<close>

lemma LuaEngine_try_Inr_False:
  "LuaEngine_try lib code e = (Inr b, e') \<Longrightarrow> b = False"
  by (auto simp: LuaEngine_try_def Let_def split: prod.splits sum.splits if_splits)

lemma LuaEngine_eval_cases:
  obtains (returned) e1 where "LuaEngine_try lib code e = (Inr False, e1)"
      "LuaEngine_eval lib code e = (False, execAfterEval False e1)"
  | (caught) what e1 where "LuaEngine_try lib code e = (Inl what, e1)"
      "LuaEngine_eval lib code e =
         (False, execAfterEval False (onConsolePrint (''Error: '' @ what) e1))"
proof (cases "LuaEngine_try lib code e")
  case (Pair r e1)
  show ?thesis
  proof (cases r)
    case (Inl what)
    with Pair show ?thesis by (intro caught [of what e1]) (simp_all add: LuaEngine_eval_def)
  next
    case (Inr b)
    with Pair LuaEngine_try_Inr_False [of lib code e b e1] show ?thesis
      by (intro returned [of e1]) (simp_all add: LuaEngine_eval_def)
  qed
qed

lemma LuaEngine_eval_returns_False: "fst (LuaEngine_eval lib code e) = False"
  by (cases rule: LuaEngine_eval_cases [of lib code e]) simp_all

lemma fired_LuaEngine_try:
  "LuaEngine_try lib code e = (r, e1) \<Longrightarrow> fired (trace e1) = fired (trace e)"
  by (auto simp: LuaEngine_try_def Let_def trace_do_natives
           split: prod.splits sum.splits if_splits)

lemma LuaEngine_try_trace:
  assumes "LuaEngine_try lib code e = (r, e1)"
  shows "\<exists>rest. trace e1 = trace e @ LoadString code # rest \<and> InitGlobals \<notin> set rest"
  using assms InitGlobals_not_printed
  by (auto simp: LuaEngine_try_def Let_def trace_do_natives
      split: prod.splits sum.splits if_splits)

lemma LuaEngine_try_scriptObjects:
  "LuaEngine_try lib code e = (r, e1) \<Longrightarrow> m_scriptObjects e1 = m_scriptObjects e"
  by (auto simp: LuaEngine_try_def Let_def split: prod.splits sum.splits if_splits)

lemma LuaEngine_try_listeners:
  "LuaEngine_try lib code e = (r, e1) \<Longrightarrow>
     \<exists>new. m_afterEvalListeners e1 = m_afterEvalListeners e @ new"
  by (auto simp: LuaEngine_try_def Let_def listeners_do_natives
      split: prod.splits sum.splits if_splits)

lemma LuaEngine_try_load_failed:
  assumes "fst (luaL_loadstring lib (L e) code) \<noteq> LUA_OK"
  shows "LuaEngine_try lib code e =
           (Inr False, emit (LoadString code) (e\<lparr>L := snd (luaL_loadstring lib (L e) code)\<rparr>))"
  using assms by (auto simp: LuaEngine_try_def Let_def split: prod.splits)

text \<open>
  Every \<open>LuaEngine::eval\<close> ends with one pass of \<open>execAfterEval\<close> over the listeners
  registered by then, those the chunk itself registered included; the listener list of
  the engine only grows.
\<close>

lemma LuaEngine_eval_fired:
  "fired (trace (snd (LuaEngine_eval lib code e))) =
     fired (trace e) @ map (\<lambda>l. ListenerCalled l False)
                          (m_afterEvalListeners (snd (LuaEngine_eval lib code e)))"
proof (cases rule: LuaEngine_eval_cases [of lib code e])
  case (returned e1)
  then show ?thesis
    by (simp add: trace_execAfterEval listeners_execAfterEval fired_LuaEngine_try)
next
  case (caught what e1)
  then show ?thesis
    by (simp add: trace_execAfterEval listeners_execAfterEval fired_LuaEngine_try
          onConsolePrint_def)
qed

lemma LuaEngine_eval_listeners:
  "\<exists>new. m_afterEvalListeners (snd (LuaEngine_eval lib code e)) = m_afterEvalListeners e @ new"
proof (cases rule: LuaEngine_eval_cases [of lib code e])
  case (returned e1)
  then show ?thesis
    using LuaEngine_try_listeners [of lib code e "Inr False" e1]
    by (simp add: listeners_execAfterEval)
next
  case (caught what e1)
  then show ?thesis
    using LuaEngine_try_listeners [of lib code e "Inl what" e1]
    by (simp add: listeners_execAfterEval onConsolePrint_def)
qed

lemma LuaEngine_eval_trace:
  "\<exists>rest. trace (snd (LuaEngine_eval lib code e)) = trace e @ LoadString code # rest
          \<and> InitGlobals \<notin> set rest"
proof (cases rule: LuaEngine_eval_cases [of lib code e])
  case (returned e1)
  from LuaEngine_try_trace [OF returned(1)] obtain rest where
    "trace e1 = trace e @ LoadString code # rest" "InitGlobals \<notin> set rest"
    by blast
  with returned(2) show ?thesis
    by (auto simp: trace_execAfterEval)
next
  case (caught what e1)
  from LuaEngine_try_trace [OF caught(1)] obtain rest where
    "trace e1 = trace e @ LoadString code # rest" "InitGlobals \<notin> set rest"
    by blast
  with caught(2) show ?thesis
    by (auto simp: trace_execAfterEval onConsolePrint_def)
qed

lemma LuaEngine_eval_scriptObjects:
  "m_scriptObjects (snd (LuaEngine_eval lib code e)) = m_scriptObjects e"
proof (cases rule: LuaEngine_eval_cases [of lib code e])
  case (returned e1)
  then show ?thesis
    using LuaEngine_try_scriptObjects [of lib code e "Inr False" e1]
    by simp
next
  case (caught what e1)
  then show ?thesis
    using LuaEngine_try_scriptObjects [of lib code e "Inl what" e1]
    by (simp add: onConsolePrint_def)
qed


subsection \<open>V8Engine::eval\<close>

lemma V8Engine_eval_trace:
  assumes "V8Engine_eval lib reg code e = Inr (r, e')"
  shows "\<exists>rest. trace e' =
           trace e @ InitGlobals # map MakeGlobal (getAllWithFlag reg ''global'')
             @ Compile code # Run # rest"
  using assms
  by (auto simp: V8Engine_eval_def Let_def trace_initGlobals trace_do_natives
        onConsolePrint_def
      split: prod.splits option.splits v8_run.splits if_splits)

lemma V8Engine_eval_scriptObjects:
  assumes "V8Engine_eval lib reg code e = Inr (r, e')"
  shows "m_scriptObjects e' = getAllWithFlag reg ''global''"
  using assms
  by (auto simp: V8Engine_eval_def Let_def scriptObjects_initGlobals onConsolePrint_def
      split: prod.splits option.splits v8_run.splits if_splits)

lemma V8Engine_eval_listeners:
  assumes "V8Engine_eval lib reg code e = Inr (r, e')"
  shows "\<exists>new. m_afterEvalListeners e' = m_afterEvalListeners e @ new"
  using assms
  by (auto simp: V8Engine_eval_def Let_def listeners_do_natives onConsolePrint_def
      split: prod.splits option.splits v8_run.splits if_splits)

lemma V8Engine_eval_fired:
  assumes "V8Engine_eval lib reg code e = Inr (r, e')"
  shows "fired (trace e') = fired (trace e)"
  using assms
  by (auto simp: V8Engine_eval_def Let_def trace_initGlobals trace_do_natives
        onConsolePrint_def
      split: prod.splits option.splits v8_run.splits if_splits)

text \<open>
  A source that does not compile leaves \<open>Script::Compile\<close> with the empty handle, and the
  \<open>ToLocalChecked()\<close> applied to it ends the process before the \<open>TryCatch\<close> is looked at.
  A run that ends with a value or with a caught script exception returns the error flag
  cleared, that is, false.
\<close>

lemma V8Engine_eval_compile_error:
  assumes "fst (Script_Compile lib (m_isolate e) code) = None"
  shows "V8Engine_eval lib reg code e = Inl ToLocalChecked_Empty"
proof -
  have "m_isolate (initGlobals reg e) = m_isolate e"
    by (simp add: initGlobals_def emit_def Let_def)
  with assms show ?thesis
    by (auto simp: V8Engine_eval_def Let_def split: prod.splits)
qed

lemma V8Engine_eval_returns_errFlag:
  assumes "V8Engine_eval lib reg code e = Inr (r, e')"
  shows "r = (\<exists>script i1 calls what i2.
                Script_Compile lib (m_isolate e) code = (Some script, i1) \<and>
                Script_Run lib i1 script = (calls, RunThrows what, i2))"
proof -
  have "m_isolate (initGlobals reg e) = m_isolate e"
    by (simp add: initGlobals_def emit_def Let_def)
  with assms show ?thesis
    by (auto simp: V8Engine_eval_def Let_def emit_def
        split: prod.splits option.splits v8_run.splits if_splits)
qed

section \<open>The claims about the engine\<close>

text \<open>
  C1. Every call of \<open>eval\<close>, on every backend, is to run each listener registered through
  \<open>afterEval\<close> exactly once, in the order of registration, with the success of that
  evaluation. \<open>LuaEngine::eval\<close> ends with \<open>execAfterEval(success)\<close>
  (\<open>LuaEngine_eval_fired\<close>); \<open>V8Engine::eval\<close> never calls \<open>execAfterEval\<close>: whenever it
  returns, the listener runs recorded in the trace are those that were there before the
  call, whatever the script, the registry and the listeners registered.
\<close>

theorem V8Engine_eval_runs_no_listener:
  assumes "V8Engine_eval lib reg code e = Inr (r, e')"
  shows "fired (trace e') = fired (trace e)"
  using assms by (rule V8Engine_eval_fired)

theorem V8Engine_eval_runs_no_listener_witness:
  "V8Engine_eval (example_v8 (RunValue ''undefined'')) [] '''' (example_v8_engine [7] False ())
     = Inr (False, (example_v8_engine [7] False ())\<lparr>trace := [InitGlobals, Compile '''', Run]\<rparr>)
   \<and> fired [InitGlobals, Compile '''', Run] = fired []"
proof -
  have h: "V8Engine_eval (example_v8 (RunValue ''undefined'')) [] '''' (example_v8_engine [7] False ())
     = Inr (False, (example_v8_engine [7] False ())\<lparr>trace := [InitGlobals, Compile '''', Run]\<rparr>)"
    by (simp add: V8Engine_eval_def example_v8_def example_v8_engine_def initGlobals_def
          getAllWithFlag_def emit_def Let_def)
  show ?thesis using h V8Engine_eval_runs_no_listener [OF h] by simp
qed

text \<open>
  C2. \<open>eval\<close> of the empty source is to return true and to notify the listeners once with
  true. \<open>LuaEngine::eval\<close> returns false for the empty source, as for every source, and
  every listener registered by the end of the run is called once with false: the
  assignment \<open>success = false\<close> after the outer \<open>if\<close> lacks its \<open>else\<close>.
\<close>

theorem LuaEngine_eval_empty_source:
  "fst (LuaEngine_eval lib '''' e) = False \<and>
   fired (trace (snd (LuaEngine_eval lib '''' e))) =
     fired (trace e) @ map (\<lambda>l. ListenerCalled l False)
                          (m_afterEvalListeners (snd (LuaEngine_eval lib '''' e)))"
  using LuaEngine_eval_returns_False [of lib "''''" e] LuaEngine_eval_fired [of lib "''''" e]
  by simp

theorem LuaEngine_eval_empty_source_witness:
  "LuaEngine_eval (example_lua LUA_OK (Inr LUA_OK)) '''' (example_engine [7] False ()) =
     (False, (example_engine [7] False ())
               \<lparr>trace := [LoadString '''', PCall, ListenerCalled 7 False]\<rparr>)"
  using LuaEngine_eval_empty_source [of "example_lua LUA_OK (Inr LUA_OK)" "example_engine [7] False ()"]
  by (simp add: LuaEngine_eval_def LuaEngine_try_def example_lua_def example_engine_def
        execAfterEval_def emit_def Let_def)

text \<open>
  C3. \<open>eval\<close> of a source that does not compile is to return false, to print exactly one
  message through the delegate and to notify the listeners once with false. When
  \<open>luaL_loadstring\<close> does not answer \<open>LUA_OK\<close>, \<open>LuaEngine::eval\<close> returns false and calls
  every listener once with false, but nothing reaches \<open>onConsolePrint\<close>: the console is
  as it was before the call.
\<close>

theorem LuaEngine_eval_load_failure_prints_nothing:
  assumes "fst (luaL_loadstring lib (L e) code) \<noteq> LUA_OK"
  shows "fst (LuaEngine_eval lib code e) = False \<and>
         console (trace (snd (LuaEngine_eval lib code e))) = console (trace e) \<and>
         fired (trace (snd (LuaEngine_eval lib code e))) =
           fired (trace e) @ map (\<lambda>l. ListenerCalled l False) (m_afterEvalListeners e)"
  using LuaEngine_try_load_failed [OF assms]
  by (simp add: LuaEngine_eval_def trace_execAfterEval)

theorem LuaEngine_eval_load_failure_prints_nothing_witness:
  "fst (luaL_loadstring (example_lua LUA_ERRSYNTAX (Inr LUA_OK)) () ''x = = 1'') \<noteq> LUA_OK \<and>
   LuaEngine_eval (example_lua LUA_ERRSYNTAX (Inr LUA_OK)) ''x = = 1'' (example_engine [7] False ()) =
     (False, (example_engine [7] False ())
               \<lparr>trace := [LoadString ''x = = 1'', ListenerCalled 7 False]\<rparr>) \<and>
   console [LoadString ''x = = 1'', ListenerCalled 7 False] = []"
proof -
  have h: "fst (luaL_loadstring (example_lua LUA_ERRSYNTAX (Inr LUA_OK))
             (L (example_engine [7] False ())) ''x = = 1'') \<noteq> LUA_OK"
    by (simp add: example_lua_def)
  show ?thesis
    using h LuaEngine_eval_load_failure_prints_nothing [OF h]
    by (simp add: LuaEngine_eval_def LuaEngine_try_def example_lua_def example_engine_def
        execAfterEval_def emit_def Let_def)
qed

text \<open>
  C4. Every call of \<open>eval\<close>, on every backend, is to call \<open>initGlobals\<close> during that
  evaluation. The Lua engine keeps one interpreter state for its whole life and binds the
  global objects once, in its constructor; \<open>LuaEngine::eval\<close> does not call \<open>initGlobals\<close>:
  evaluating a chunk on a freshly constructed engine adds only the load and the run to
  the trace.
\<close>

theorem LuaEngine_eval_does_not_call_initGlobals:
  "trace (LuaEngine_new [(''app'', [''global''])] ()) = [InitGlobals, MakeGlobal ''app''] \<and>
   trace (snd (LuaEngine_eval (example_lua LUA_OK (Inr LUA_OK)) ''x = 1''
                 (LuaEngine_new [(''app'', [''global''])] ()))) =
     [InitGlobals, MakeGlobal ''app'', LoadString ''x = 1'', PCall]"
  by (simp add: LuaEngine_new_def LuaEngine_eval_def LuaEngine_try_def example_lua_def
        initGlobals_def getAllWithFlag_def execAfterEval_def emit_def Let_def)

text \<open>
  C4, as the code has it. \<open>V8Engine::eval\<close> makes a new context for every call and calls
  \<open>initGlobals\<close> in it before the source is compiled and run, so that whenever it returns
  the global objects of the registry were instantiated and bound first. The Lua engine
  calls \<open>initGlobals\<close> in its constructor, before any source can run; \<open>LuaEngine::eval\<close>
  starts with the load of the source, does not call \<open>initGlobals\<close> and leaves the global
  objects of the engine as they are.
\<close>

theorem initGlobals_before_source_runs:
  "(V8Engine_eval vlib reg code ve = Inr (r, ve') \<longrightarrow>
      (\<exists>rest. trace ve' =
         trace ve @ InitGlobals # map MakeGlobal (getAllWithFlag reg ''global'')
           @ Compile code # Run # rest) \<and>
      m_scriptObjects ve' = getAllWithFlag reg ''global'') \<and>
   trace (LuaEngine_new reg L0) = InitGlobals # map MakeGlobal (getAllWithFlag reg ''global'') \<and>
   m_scriptObjects (LuaEngine_new reg L0) = getAllWithFlag reg ''global'' \<and>
   (\<exists>rest. trace (snd (LuaEngine_eval llib code le)) = trace le @ LoadString code # rest
           \<and> InitGlobals \<notin> set rest) \<and>
   m_scriptObjects (snd (LuaEngine_eval llib code le)) = m_scriptObjects le"
  using V8Engine_eval_trace [of vlib reg code ve r ve']
    V8Engine_eval_scriptObjects [of vlib reg code ve r ve']
    LuaEngine_eval_trace [of llib code le] LuaEngine_eval_scriptObjects [of llib code le]
  by (simp add: LuaEngine_new_def trace_initGlobals scriptObjects_initGlobals)

theorem initGlobals_before_source_runs_witness:
  "V8Engine_eval (example_v8 (RunValue ''undefined'')) [(''app'', [''global'']), (''Dialog'', [])]
      ''app'' (example_v8_engine [] False ()) =
     Inr (False, (example_v8_engine [] False ())
                   \<lparr>m_scriptObjects := [''app''],
                    trace := [InitGlobals, MakeGlobal ''app'', Compile ''app'', Run]\<rparr>) \<and>
   getAllWithFlag [(''app'', [''global'']), (''Dialog'', [])] ''global'' = [''app'']"
  using initGlobals_before_source_runs
    [of "example_v8 (RunValue ''undefined'')" "[(''app'', [''global'']), (''Dialog'', [])]"
        "''app''" "example_v8_engine [] False ()"]
  by (simp add: V8Engine_eval_def example_v8_def example_v8_engine_def initGlobals_def
        getAllWithFlag_def emit_def Let_def)

text \<open>
  C6. With "print last result" switched on, evaluating \<open>return 2+2\<close> is to print the
  text of 4 through the delegate. \<open>LuaEngine::printLastResult\<close> sets the flag and
  \<open>LuaEngine::eval\<close> never reads it: \<open>lua_pcall\<close> is asked for no result, and when the
  chunk loads and runs without an exception the console receives what the chunk's own
  native calls print and nothing else.
\<close>

theorem LuaEngine_eval_ignores_printLastResult:
  assumes "luaL_loadstring lib (L e) code = (LUA_OK, l1)"
    and "lua_pcall lib l1 = (calls, Inr st, l2)"
  shows "console (trace (snd (LuaEngine_eval lib code (LuaEngine_printLastResult e)))) =
           console (trace e) @ printed_by calls"
  using assms
  by (simp add: LuaEngine_eval_def LuaEngine_try_def LuaEngine_printLastResult_def Let_def
        trace_execAfterEval trace_do_natives)

theorem LuaEngine_eval_ignores_printLastResult_witness:
  "LuaEngine_eval (example_lua LUA_OK (Inr LUA_OK)) ''return 2+2''
       (LuaEngine_printLastResult (example_engine [] False ())) =
     (False, (example_engine [] True ())\<lparr>trace := [LoadString ''return 2+2'', PCall]\<rparr>) \<and>
   console [LoadString ''return 2+2'', PCall] = []"
proof -
  have h1: "luaL_loadstring (example_lua LUA_OK (Inr LUA_OK)) (L (example_engine [] False ()))
              ''return 2+2'' = (LUA_OK, ())"
    by (simp add: example_lua_def)
  have h2: "lua_pcall (example_lua LUA_OK (Inr LUA_OK)) () = ([], Inr LUA_OK, ())"
    by (simp add: example_lua_def)
  show ?thesis
    using LuaEngine_eval_ignores_printLastResult [OF h1 h2]
    by (simp add: LuaEngine_eval_def LuaEngine_try_def example_lua_def example_engine_def
        LuaEngine_printLastResult_def execAfterEval_def emit_def Let_def)
qed

text \<open>
  C7. \<open>raiseEvent(name)\<close> with no \<open>onEvent\<close> defined is to report success and to print
  nothing. \<open>LuaEngine::raiseEvent\<close> returns what \<open>eval\<close> returns for the snippet, and that
  is false for every event name and every interpreter state, through the same missing
  \<open>else\<close> as in C2.
\<close>

theorem LuaEngine_raiseEvent_reports_failure:
  "fst (LuaEngine_raiseEvent lib event e) = False"
  by (simp add: LuaEngine_raiseEvent_def LuaEngine_eval_returns_False)

theorem LuaEngine_raiseEvent_reports_failure_witness:
  "LuaEngine_raiseEvent (example_lua LUA_OK (Inr LUA_OK)) ''close'' (example_engine [] False ()) =
     (False, (example_engine [] False ())
       \<lparr>trace := [LoadString (''if onEvent~=nil then onEvent('' @ [CHR 0x22] @ ''close''
                                 @ [CHR 0x22] @ '') end''), PCall]\<rparr>)"
  using LuaEngine_raiseEvent_reports_failure
    [of "example_lua LUA_OK (Inr LUA_OK)" "''close''" "example_engine [] False ()"]
  by (simp add: LuaEngine_raiseEvent_def LuaEngine_eval_def LuaEngine_try_def example_lua_def
        example_engine_def execAfterEval_def emit_def Let_def)

text \<open>
  C10. The listener list of an engine only grows (\<open>listeners_afterEval\<close>,
  \<open>listeners_execAfterEval\<close>, \<open>LuaEngine_eval_listeners\<close>), and a listener registered
  before an evaluation is to be called again by every later evaluation on that engine.
  On a V8 engine it stays registered and is not called: \<open>V8Engine::eval\<close> keeps the list
  and makes no pass over it, which is the omission of C1.
\<close>

theorem V8Engine_eval_skips_registered_listener:
  assumes "V8Engine_eval lib reg code (afterEval l e) = Inr (r, e')"
  shows "l \<in> set (m_afterEvalListeners e') \<and> fired (trace e') = fired (trace e)"
  using V8Engine_eval_listeners [OF assms] V8Engine_eval_fired [OF assms]
  by (auto simp: listeners_afterEval)

theorem V8Engine_eval_skips_registered_listener_witness:
  "V8Engine_eval (example_v8 (RunValue ''4'')) [] ''2+2'' (afterEval 3 (example_v8_engine [] False ()))
     = Inr (False, (example_v8_engine [3] False ())\<lparr>trace := [InitGlobals, Compile ''2+2'', Run]\<rparr>)
   \<and> 3 \<in> set [3::nat] \<and> fired [InitGlobals, Compile ''2+2'', Run] = []"
proof -
  have h: "V8Engine_eval (example_v8 (RunValue ''4'')) [] ''2+2''
             (afterEval 3 (example_v8_engine [] False ()))
     = Inr (False, (example_v8_engine [3] False ())\<lparr>trace := [InitGlobals, Compile ''2+2'', Run]\<rparr>)"
    by (simp add: V8Engine_eval_def example_v8_def example_v8_engine_def initGlobals_def
          getAllWithFlag_def emit_def afterEval_def Let_def)
  show ?thesis using h V8Engine_eval_skips_registered_listener [OF h] by simp
qed


section \<open>The claims about Value conversion\<close>

lemma c_str_no_NUL: "CHR 0x00 \<notin> set s \<Longrightarrow> c_str s = s"
  by (auto simp: c_str_def)

lemma c_str_idem [simp]: "c_str (c_str s) = c_str s"
  by (simp add: c_str_def)

lemma stack_at_single [simp]: "stack_at [v] 1 = Some v"
  by (simp add: stack_at_def)

lemma stack_at_empty [simp]: "stack_at [] i = None"
  by (simp add: stack_at_def)

lemma sint_scast_32_64: "sint (scast (x :: 32 word) :: 64 word) = sint x"
  by (simp add: sint_up_scast is_up)

lemma Lua_roundtrip_OBJECT: "Lua_roundtrip out (OBJECT p) = (UNDEFINED, out)"
  by (cases p)
     (simp_all add: Lua_roundtrip_def Lua_returnValue_def Lua_getValue_def lua_type_def
        Lua_makeLocal_def)

text \<open>
  C5. A Value converted to the native representation of a backend by \<open>returnValue\<close> and
  back by \<open>getValue\<close> is to come back equal. An OBJECT does not: \<open>returnValue\<close> makes a
  table of it and \<open>getValue\<close> answers UNDEFINED for a table. Nor does an INT: Lua's
  \<open>getValue\<close> reads every number with \<open>lua_tonumber\<close>, so the INT 5 comes back as the
  DOUBLE 5.
\<close>

theorem Lua_roundtrip_loses_OBJECT_and_INT:
  "Lua_roundtrip [] (OBJECT (Some \<lparr>m_functions = [''close''], m_properties = [''title'']\<rparr>)) =
     (UNDEFINED, []) \<and>
   UNDEFINED \<noteq> OBJECT (Some \<lparr>m_functions = [''close''], m_properties = [''title'']\<rparr>) \<and>
   Lua_roundtrip [] (INT64 5) = (DOUBLE 5, []) \<and> DOUBLE 5 \<noteq> INT64 5"
  by (simp add: Lua_roundtrip_def Lua_returnValue_def Lua_getValue_def lua_type_def
        lua_tonumber_def Value_to_int_def Lua_makeLocal_def)

text \<open>
  In the V8 adapter the branches of \<open>getValue\<close> for \<open>IsUint32\<close> and \<open>IsInt32\<close> come after
  the one for \<open>IsNumber\<close>, which every such value takes: they are never reached, and the
  integer that \<open>returnValue\<close> made with \<open>v8::Int32::New\<close> is read back as a DOUBLE.
\<close>

lemma V8_getValue_integer_branches_unreachable:
  "IsUint32 local \<or> IsInt32 local \<Longrightarrow> IsNumber local"
  by (cases local) simp_all

lemma V8_roundtrip_INT:
  "V8_roundtrip codec out (INT64 n) =
     Some (DOUBLE (real_of_int (sint (Value_to_int n))), out)"
  by (simp add: V8_roundtrip_def V8_returnValue_def V8_getValue_def)

text \<open>
  C5, as the code has it. On both backends a DOUBLE comes back as it was. A STRING crosses
  as a C string and ends at its first NUL; on Lua a STRING without a NUL character comes
  back as it was, and on V8 it comes back as the UTF-8 encoding of the string V8 decoded
  from it, which is the STRING itself when it has no NUL and V8's decoding and encoding
  give its bytes back (well-formed UTF-8). On Lua an INT comes back as a DOUBLE: the value
  narrowed to 32 bits by the cast in \<open>returnValue\<close> and read back with \<open>lua_tonumber\<close>. An
  OBJECT becomes a native table or object and comes back UNDEFINED, on V8 with the line
  "Unknown type: [object]" on the standard output. UNDEFINED and the null OBJECT push
  nothing on the Lua stack, where \<open>getValue\<close> finds no value and answers UNDEFINED, and
  are the empty handle on V8, which holds nothing to read back.
\<close>

theorem roundtrip_by_kind:
  "Lua_roundtrip out UNDEFINED = (UNDEFINED, out) \<and>
   Lua_roundtrip out (INT64 n) = (DOUBLE (real_of_int (sint (Value_to_int n))), out) \<and>
   Lua_roundtrip out (DOUBLE d) = (DOUBLE d, out) \<and>
   Lua_roundtrip out (STRING s) = (STRING (c_str s), out) \<and>
   (CHR 0x00 \<notin> set s \<longrightarrow> Lua_roundtrip out (STRING s) = (STRING s, out)) \<and>
   Lua_roundtrip out (OBJECT p) = (UNDEFINED, out) \<and>
   V8_roundtrip codec out UNDEFINED = None \<and>
   V8_roundtrip codec out (DOUBLE d) = Some (DOUBLE d, out) \<and>
   V8_roundtrip codec out (STRING s) =
     Some (STRING (c_str (String_Utf8Value codec (String_NewFromUtf8 codec (c_str s)))), out) \<and>
   (CHR 0x00 \<notin> set s \<and> String_Utf8Value codec (String_NewFromUtf8 codec s) = s \<longrightarrow>
      V8_roundtrip codec out (STRING s) = Some (STRING s, out)) \<and>
   V8_roundtrip codec out (OBJECT None) = None \<and>
   V8_roundtrip codec out (OBJECT (Some obj)) =
     Some (UNDEFINED, out @ [''Unknown type: [object]'' @ [CHR 0x0A]])"
  using Lua_roundtrip_OBJECT [of out p]
  by (simp add: Lua_roundtrip_def Lua_returnValue_def Lua_getValue_def lua_type_def
        lua_tonumber_def lua_tostring_def Value_of_c_str_def c_str_no_NUL
        V8_roundtrip_def V8_returnValue_def V8_getValue_def V8_makeLocal_def sint_scast_32_64)

lemma example_codec_abc:
  "String_Utf8Value example_codec (String_NewFromUtf8 example_codec ''abc'') = ''abc''"
  by (simp add: example_codec_def example_encode_unit_def) code_simp

lemma example_codec_two_bytes:
  "String_Utf8Value example_codec (String_NewFromUtf8 example_codec [CHR 0xC3, CHR 0xA9]) =
     [CHR 0xC3, CHR 0xA9]"
  by (simp add: example_codec_def example_encode_unit_def example_two_def) code_simp

lemma example_codec_malformed:
  "String_Utf8Value example_codec (String_NewFromUtf8 example_codec [CHR 0xFF]) =
     [CHR 0xEF, CHR 0xBF, CHR 0xBD]"
  by (simp add: example_codec_def example_encode_unit_def) code_simp

theorem roundtrip_by_kind_witness:
  "CHR 0x00 \<notin> set ''abc'' \<and>
   String_Utf8Value example_codec (String_NewFromUtf8 example_codec ''abc'') = ''abc'' \<and>
   Lua_roundtrip [] (STRING ''abc'') = (STRING ''abc'', []) \<and>
   V8_roundtrip example_codec [] (STRING ''abc'') = Some (STRING ''abc'', []) \<and>
   V8_roundtrip example_codec [] (STRING [CHR 0xFF]) =
     Some (STRING [CHR 0xEF, CHR 0xBF, CHR 0xBD], []) \<and>
   Lua_roundtrip [] (INT64 4294967301) = (DOUBLE 5, []) \<and>
   Lua_roundtrip [] (INT64 4294967295) = (DOUBLE (- 1), [])"
proof -
  have n: "CHR 0x00 \<notin> set ''abc''"
    by simp
  have c: "c_str [CHR 0xFF] = [CHR 0xFF]"
    "c_str [CHR 0xEF, CHR 0xBF, CHR 0xBD] = [CHR 0xEF, CHR 0xBF, CHR 0xBD]"
    "c_str ''abc'' = ''abc''"
    by (simp_all add: c_str_def)
  show ?thesis
    using n example_codec_abc
      roundtrip_by_kind [of "[]" "4294967301" 0 "''abc''" None example_codec
                            "\<lparr>m_functions = [], m_properties = []\<rparr>"]
      roundtrip_by_kind [of "[]" "4294967295" 0 "[CHR 0xFF]" None example_codec
                            "\<lparr>m_functions = [], m_properties = []\<rparr>"]
    by (simp add: Value_to_int_def example_codec_malformed c)
qed

text \<open>
  C8. For a native value of a kind without a Value equivalent, \<open>getValue\<close> of every
  adapter is to log a descriptive message and to yield UNDEFINED. The Lua adapter yields
  UNDEFINED for a table and writes nothing.
\<close>

theorem Lua_getValue_table_logs_nothing:
  "lua_type [LTable []] 1 = LUA_TTABLE \<and> Lua_getValue [] [LTable []] 1 = (UNDEFINED, [])"
  by (simp add: Lua_getValue_def lua_type_def)

text \<open>
  C8, as the code has it. For a native value of a kind without a Value equivalent both
  adapters yield UNDEFINED. The V8 adapter, for a value that is neither null nor
  undefined, nor a string, a number or a boolean, first prints "Unknown type: [t]" with
  the value's \<open>typeof\<close> text t; the Lua adapter, for a value whose type is not nil, number,
  boolean or string, prints nothing.
\<close>

theorem getValue_unknown_kind:
  "(\<not> IsNullOrUndefined local \<and> \<not> IsString local \<and> \<not> IsNumber local \<and> \<not> IsBoolean local \<longrightarrow>
      V8_getValue codec out local =
        (UNDEFINED, out @ [''Unknown type: ['' @ TypeOf local @ '']'' @ [CHR 0x0A]])) \<and>
   (lua_type st i \<noteq> LUA_TNIL \<and> lua_type st i \<noteq> LUA_TNUMBER \<and>
    lua_type st i \<noteq> LUA_TBOOLEAN \<and> lua_type st i \<noteq> LUA_TSTRING \<longrightarrow>
      Lua_getValue out st i = (UNDEFINED, out))"
  by (cases local) (simp_all add: V8_getValue_def Lua_getValue_def)

theorem getValue_unknown_kind_witness:
  "\<not> IsNullOrUndefined JSFunction \<and> \<not> IsString JSFunction \<and> \<not> IsNumber JSFunction \<and>
   \<not> IsBoolean JSFunction \<and>
   V8_getValue example_codec [] JSFunction =
     (UNDEFINED, [''Unknown type: [function]'' @ [CHR 0x0A]]) \<and>
   lua_type [LUserdata] (- 1) = LUA_TUSERDATA \<and>
   Lua_getValue [] [LUserdata] (- 1) = (UNDEFINED, [])"
proof -
  have t: "lua_type [LUserdata] (- 1) = LUA_TUSERDATA"
    by (simp add: lua_type_def stack_at_def)
  show ?thesis
    using t getValue_unknown_kind [of JSFunction example_codec "[]" "[LUserdata]" "- 1"]
    by simp
qed

section \<open>The claim about type names\<close>

lemma cleanType_of_lower:
  "string_to_lower t1 = string_to_lower t2 \<Longrightarrow> cleanType_of t1 = cleanType_of t2"
  by (simp add: cleanType_of_def)

text \<open>\<open>add\<close> sees the type name only through its lower-cased form.\<close>

lemma add_case_insensitive:
  assumes "string_to_lower t1 = string_to_lower t2"
  shows "DialogScriptObject_add inject t1 ident s = DialogScriptObject_add inject t2 ident s"
proof -
  have "(t1 = []) = (t2 = [])"
    using assms by (cases t1; cases t2) (simp_all add: string_to_lower_def)
  then show ?thesis
    by (simp add: DialogScriptObject_add_def assms cleanType_of_lower [OF assms])
qed

lemma cleanType_of_lAbEl: "cleanType_of ''lAbEl'' = ''LabelWidgetScriptObject''"
  by code_simp

lemma cleanType_of_Label: "cleanType_of ''Label'' = ''LabelWidgetScriptObject''"
  by code_simp

lemma string_to_lower_lAbEl: "string_to_lower ''lAbEl'' = string_to_lower ''Label''"
  by code_simp

text \<open>
  What \<open>add\<close> does with the registry: it gives up without a lookup for an empty type name
  or an id already in use; otherwise it resolves the key \<open>cleanType_of type\<close> and nothing
  else, gives up when no factory resolves, and else hands the widget made under that key
  to the dialog, names it and returns it.
\<close>

lemma add_guarded:
  "type = [] \<or> DialogScriptObject_get s ident \<noteq> None \<Longrightarrow>
     DialogScriptObject_add inject type ident s = (None, s)"
  by (auto simp: DialogScriptObject_add_def)

lemma add_unresolved:
  "type \<noteq> [] \<Longrightarrow> DialogScriptObject_get s ident = None \<Longrightarrow>
   inject (cleanType_of type) = None \<Longrightarrow>
     DialogScriptObject_add inject type ident s = (None, s)"
  by (simp add: DialogScriptObject_add_def)

lemma add_resolved:
  assumes "type \<noteq> []" and "DialogScriptObject_get s ident = None"
    and "inject (cleanType_of type) = Some widget"
  shows "fst (DialogScriptObject_add inject type ident s) =
           Some (widget\<lparr>id_property :=
                   (if ident \<noteq> [] then ident
                    else string_to_lower type @ to_string (unat (m_nextWidgetId s)))\<rparr>)"
    and "dialog (snd (DialogScriptObject_add inject type ident s)) =
           Dialog_add widget (dialog s)"
  using assms
  by (simp_all add: DialogScriptObject_add_def Let_def split: prod.splits)

text \<open>
  C9. \<open>DialogScriptObject::add\<close> asks the registry for a factory under the type name
  lower-cased as a whole, with its first character upper-cased and the suffix
  "WidgetScriptObject" appended, and under no other key: for a type name that is not
  empty and an id that is free, \<open>add\<close> returns null exactly when no factory resolves
  under that key, and else returns the widget made under that key, named and handed to
  the dialog; two registries that agree on that key make \<open>add\<close> behave alike. The names
  "lAbEl" and "Label" both give the key "LabelWidgetScriptObject", and \<open>add\<close> does the
  same for both, whatever the registry, the id and the dialog.
\<close>

theorem type_name_normalization:
  "(type \<noteq> [] \<longrightarrow>
      cleanType_of type =
        toupper (tolower (hd type)) # map tolower (tl type) @ ''WidgetScriptObject'') \<and>
   (type \<noteq> [] \<and> DialogScriptObject_get s ident = None \<longrightarrow>
      (fst (DialogScriptObject_add inject type ident s) = None) =
        (inject (cleanType_of type) = None)) \<and>
   (type \<noteq> [] \<and> DialogScriptObject_get s ident = None \<and>
    inject (cleanType_of type) = None \<longrightarrow>
      DialogScriptObject_add inject type ident s = (None, s)) \<and>
   (type \<noteq> [] \<and> DialogScriptObject_get s ident = None \<and>
    inject (cleanType_of type) = Some widget \<longrightarrow>
      fst (DialogScriptObject_add inject type ident s) =
        Some (widget\<lparr>id_property :=
                (if ident \<noteq> [] then ident
                 else string_to_lower type @ to_string (unat (m_nextWidgetId s)))\<rparr>) \<and>
      dialog (snd (DialogScriptObject_add inject type ident s)) =
        Dialog_add widget (dialog s)) \<and>
   (inject (cleanType_of type) = inject' (cleanType_of type) \<longrightarrow>
      DialogScriptObject_add inject type ident s = DialogScriptObject_add inject' type ident s) \<and>
   cleanType_of ''lAbEl'' = ''LabelWidgetScriptObject'' \<and>
   cleanType_of ''Label'' = ''LabelWidgetScriptObject'' \<and>
   DialogScriptObject_add inject ''lAbEl'' ident s = DialogScriptObject_add inject ''Label'' ident s"
proof -
  have a: "type \<noteq> [] \<longrightarrow> cleanType_of type =
        toupper (tolower (hd type)) # map tolower (tl type) @ ''WidgetScriptObject''"
    by (cases type) (simp_all add: cleanType_of_def string_to_lower_def)
  have r: "type \<noteq> [] \<and> DialogScriptObject_get s ident = None \<longrightarrow>
      (fst (DialogScriptObject_add inject type ident s) = None) =
        (inject (cleanType_of type) = None)"
  proof (cases "inject (cleanType_of type)")
    case None
    then show ?thesis by (simp add: add_unresolved)
  next
    case (Some w)
    then show ?thesis by (simp add: add_resolved(1))
  qed
  have u: "type \<noteq> [] \<and> DialogScriptObject_get s ident = None \<and>
      inject (cleanType_of type) = None \<longrightarrow>
      DialogScriptObject_add inject type ident s = (None, s)"
    by (simp add: add_unresolved)
  have v: "type \<noteq> [] \<and> DialogScriptObject_get s ident = None \<and>
      inject (cleanType_of type) = Some widget \<longrightarrow>
      fst (DialogScriptObject_add inject type ident s) =
        Some (widget\<lparr>id_property :=
                (if ident \<noteq> [] then ident
                 else string_to_lower type @ to_string (unat (m_nextWidgetId s)))\<rparr>) \<and>
      dialog (snd (DialogScriptObject_add inject type ident s)) =
        Dialog_add widget (dialog s)"
    using add_resolved [of type s ident inject widget] by blast
  have b: "inject (cleanType_of type) = inject' (cleanType_of type) \<longrightarrow>
      DialogScriptObject_add inject type ident s = DialogScriptObject_add inject' type ident s"
    by (simp add: DialogScriptObject_add_def)
  have c: "DialogScriptObject_add inject ''lAbEl'' ident s =
           DialogScriptObject_add inject ''Label'' ident s"
    by (rule add_case_insensitive) (rule string_to_lower_lAbEl)
  show ?thesis
    using a r u v b c cleanType_of_lAbEl cleanType_of_Label by (simp only: simp_thms)
qed

theorem type_name_normalization_witness:
  "''lAbEl'' \<noteq> [] \<and>
   DialogScriptObject_get example_dialog [] = None \<and>
   example_inject (cleanType_of ''lAbEl'') = Some example_label \<and>
   fst (DialogScriptObject_add example_inject ''lAbEl'' [] example_dialog) =
     Some (example_label\<lparr>id_property := ''label0''\<rparr>) \<and>
   fst (DialogScriptObject_add example_inject ''Label'' [] example_dialog) =
     Some (example_label\<lparr>id_property := ''label0''\<rparr>) \<and>
   example_inject (cleanType_of ''bUtToN'') = None \<and>
   DialogScriptObject_add example_inject ''bUtToN'' [] example_dialog = (None, example_dialog)"
proof -
  have ne: "''lAbEl'' \<noteq> []" "''bUtToN'' \<noteq> []"
    by simp_all
  have g: "DialogScriptObject_get example_dialog [] = None"
    by (simp add: DialogScriptObject_get_def example_dialog_def)
  have k: "example_inject (cleanType_of ''lAbEl'') = Some example_label"
    by (simp add: cleanType_of_lAbEl example_inject_def)
  have kb: "cleanType_of ''bUtToN'' = ''ButtonWidgetScriptObject''"
    by code_simp
  have nb: "example_inject (cleanType_of ''bUtToN'') = None"
    by (simp add: kb example_inject_def)
  have l: "string_to_lower ''lAbEl'' = ''label''"
    by code_simp
  have n: "to_string (unat (m_nextWidgetId example_dialog)) = ''0''"
  proof -
    have "to_string 0 = ''0''"
      by code_simp
    then show ?thesis by (simp add: example_dialog_def)
  qed
  have "fst (DialogScriptObject_add example_inject ''lAbEl'' [] example_dialog) =
     Some (example_label\<lparr>id_property :=
             (if ([] :: string) \<noteq> [] then []
              else string_to_lower ''lAbEl'' @ to_string (unat (m_nextWidgetId example_dialog)))\<rparr>)"
    using type_name_normalization
      [of "''lAbEl''" example_dialog "[]" example_inject example_label example_inject]
      ne(1) g k
    by blast
  then have e: "fst (DialogScriptObject_add example_inject ''lAbEl'' [] example_dialog) =
     Some (example_label\<lparr>id_property := ''label0''\<rparr>)"
    by (simp add: l n)
  have same: "DialogScriptObject_add example_inject ''lAbEl'' [] example_dialog =
              DialogScriptObject_add example_inject ''Label'' [] example_dialog"
    using type_name_normalization
      [of "''lAbEl''" example_dialog "[]" example_inject example_label example_inject]
    by blast
  have none: "DialogScriptObject_add example_inject ''bUtToN'' [] example_dialog =
                (None, example_dialog)"
    using type_name_normalization
      [of "''bUtToN''" example_dialog "[]" example_inject example_label example_inject]
      ne(2) g nb
    by blast
  have e2: "fst (DialogScriptObject_add example_inject ''Label'' [] example_dialog) =
     Some (example_label\<lparr>id_property := ''label0''\<rparr>)"
    using e by (simp only: same)
  from ne(1) g k e e2 nb none show ?thesis
    by (intro conjI)
qed

end
